theory Spec2Isabelle
  imports Complex_Main "HOL-Library.Sublist"
begin

section \<open>Python values and exceptions\<close>

text \<open>
  The exceptions the modelled code can raise. A function that can raise returns
  \<open>error + 'r\<close>, with \<open>Inl\<close> for the exception.
\<close>

datatype error =
    AssertionError
  | AttributeError
  | IndexError
  | TypeError
  | ValueError

text \<open>
  The Python values the spaces are asked about. A numpy array is its shape and its
  entries in row-major order. \<open>PyArray\<close> is an array of a numeric dtype and \<open>'a\<close> the
  type of its numbers (the floating-point numbers of numpy); the model never computes
  with them except through the operations of the record \<open>numpy\<close> below.
  \<open>PyStrArray\<close> is an array of strings, as \<open>np.array(['a', 'b'])\<close>: it has a shape
  like any array, but numpy has no sum for its entries. Of all these values only the
  two kinds of array have an attribute \<open>shape\<close>, and only \<open>PyList\<close> is an instance of
  \<open>list\<close>.
\<close>

datatype 'a pyval =
    PyNone
  | PyBool bool
  | PyInt int
  | PyFloat 'a
  | PyStr string
  | PyList "'a pyval list"
  | PyTuple "'a pyval list"
  | PyArray "nat list" "'a list"
  | PyStrArray "nat list" "string list"

type_synonym 'a ndarray = "nat list \<times> 'a list"

section \<open>rllib/models/list_batch.py: ListBatch\<close>

text \<open>
  The three attributes of a \<open>ListBatch\<close>. The value is a tensor of the framework in
  use and the lengths a list or a tensor, so both types are parameters.
\<close>

record ('v, 'l) ListBatch =
  value_lb :: 'v
  lengths_lb :: 'l
  max_len_lb :: int

definition ListBatch_init :: "'v \<Rightarrow> 'l \<Rightarrow> int \<Rightarrow> ('v, 'l) ListBatch" where
  "ListBatch_init v ls m = \<lparr>value_lb = v, lengths_lb = ls, max_len_lb = m\<rparr>"

text \<open>Python's \<open>str\<close> of an integer: decimal digits, with a minus sign when negative.\<close>

definition digit_char :: "nat \<Rightarrow> char" where
  "digit_char n = ''0123456789'' ! n"

fun str_nat :: "nat \<Rightarrow> string" where
  "str_nat n = (if n < 10 then [digit_char n] else str_nat (n div 10) @ [digit_char (n mod 10)])"

declare str_nat.simps [simp del]

definition str_int :: "int \<Rightarrow> string" where
  "str_int i = (if i < 0 then CHR ''-'' # str_nat (nat (- i)) else str_nat (nat i))"

text \<open>Python's \<open>repr\<close> of a list of integers, as in \<open>[3, 5]\<close>.\<close>

fun join :: "string \<Rightarrow> string list \<Rightarrow> string" where
  "join sep [] = []"
| "join sep [x] = x"
| "join sep (x # y # ys) = x @ sep @ join sep (y # ys)"

definition repr_int_list :: "int list \<Rightarrow> string" where
  "repr_int_list xs = ''['' @ join '', '' (map str_int xs) @ '']''"

text \<open>
  \<open>__repr__\<close>: the format string filled with \<open>repr(self.value)\<close>, \<open>repr(self.lengths)\<close>
  and \<open>self.max_len\<close>. The two \<open>repr\<close> functions belong to the types of the value and
  of the lengths and are parameters; an empty format field prints an integer as \<open>str\<close>
  does. \<open>__str__\<close> returns \<open>repr(self)\<close>.
\<close>

definition ListBatch_repr :: "('v \<Rightarrow> string) \<Rightarrow> ('l \<Rightarrow> string) \<Rightarrow> ('v, 'l) ListBatch \<Rightarrow> string" where
  "ListBatch_repr repr_value repr_lengths self =
     ''ListBatch(value='' @ repr_value (value_lb self) @ '', lengths='' @
     repr_lengths (lengths_lb self) @ '', max_len='' @ str_int (max_len_lb self) @ '')''"

definition ListBatch_str :: "('v \<Rightarrow> string) \<Rightarrow> ('l \<Rightarrow> string) \<Rightarrow> ('v, 'l) ListBatch \<Rightarrow> string" where
  "ListBatch_str repr_value repr_lengths self = ListBatch_repr repr_value repr_lengths self"

section \<open>rllib/utils/spaces/simplex.py: Repeated\<close>

text \<open>
  A child space is any object with \<open>sample()\<close> and \<open>contains(x)\<close>. Sampling may read
  and change state outside the \<open>Repeated\<close> instance (the child's own generator, the
  global one), which is the world \<open>'w\<close> threaded through the calls. Either method
  may raise.
\<close>

record ('v, 'w) Space =
  sample :: "'w \<Rightarrow> error + 'v \<times> 'w"
  contains :: "'v \<Rightarrow> error + bool"

text \<open>
  An instance: its private generator (a \<open>numpy.random.RandomState\<close>, here its state
  \<open>'g\<close>), the child space and the maximal length.
\<close>

record ('v, 'w, 'g) Repeated =
  np_random :: 'g
  child_space :: "('v, 'w) Space"
  max_len :: int

text \<open>\<open>__init__\<close>; \<open>entropy\<close> is the state of a \<open>RandomState()\<close> created without a seed.\<close>

definition Repeated_init :: "'g \<Rightarrow> ('v, 'w) Space \<Rightarrow> int \<Rightarrow> ('v, 'w, 'g) Repeated" where
  "Repeated_init entropy cs m = \<lparr>np_random = entropy, child_space = cs, max_len = m\<rparr>"

text \<open>
  \<open>seed\<close>: a new generator, seeded. \<open>seed_state\<close> is the state numpy derives from an
  integer seed (it raises for a seed it does not accept); with no seed the state comes
  from the operating system.
\<close>

definition Repeated_seed ::
  "(int \<Rightarrow> error + 'g) \<Rightarrow> 'g \<Rightarrow> int option \<Rightarrow> ('v, 'w, 'g) Repeated \<Rightarrow> error + ('v, 'w, 'g) Repeated" where
  "Repeated_seed seed_state entropy sd self =
     (case sd of
        None \<Rightarrow> Inr (self\<lparr>np_random := entropy\<rparr>)
      | Some n \<Rightarrow>
          (case seed_state n of
             Inl e \<Rightarrow> Inl e
           | Inr g \<Rightarrow> Inr (self\<lparr>np_random := g\<rparr>)))"

text \<open>
  What the model relies on of \<open>RandomState.randint(low, high)\<close>, as numpy documents
  it: an empty range raises \<open>ValueError\<close>, and otherwise the result lies in
  \<open>low \<le> n < high\<close>. (The bounds of numpy's integer type are not modelled.)
\<close>

definition randint_contract :: "('g \<Rightarrow> int \<Rightarrow> int \<Rightarrow> error + int \<times> 'g) \<Rightarrow> bool" where
  "randint_contract randint \<longleftrightarrow>
     (\<forall>g low high.
        (high \<le> low \<longrightarrow> randint g low high = Inl ValueError) \<and>
        (low < high \<longrightarrow> (\<exists>n g'. randint g low high = Inr (n, g') \<and> low \<le> n \<and> n < high)))"

text \<open>
  The list comprehension of \<open>sample\<close>: \<open>range(n)\<close> is evaluated once, then the child
  is sampled \<open>n\<close> times in order; the first exception ends it.
\<close>

fun draw :: "('w \<Rightarrow> error + 'v \<times> 'w) \<Rightarrow> nat \<Rightarrow> 'w \<Rightarrow> error + 'v list \<times> 'w" where
  "draw smp 0 w = Inr ([], w)"
| "draw smp (Suc n) w =
     (case smp w of
        Inl e \<Rightarrow> Inl e
      | Inr (x, w1) \<Rightarrow>
          (case draw smp n w1 of
             Inl e \<Rightarrow> Inl e
           | Inr (xs, w2) \<Rightarrow> Inr (x # xs, w2)))"

text \<open>
  \<open>sample\<close> returns the list, the instance with its generator advanced, and the world
  after the child's draws. \<open>range\<close> of a number below 1 is empty.
\<close>

definition Repeated_sample ::
  "('g \<Rightarrow> int \<Rightarrow> int \<Rightarrow> error + int \<times> 'g) \<Rightarrow> ('a pyval, 'w, 'g) Repeated \<Rightarrow> 'w \<Rightarrow>
     error + 'a pyval \<times> ('a pyval, 'w, 'g) Repeated \<times> 'w" where
  "Repeated_sample randint self w =
     (case randint (np_random self) 1 (max_len self + 1) of
        Inl e \<Rightarrow> Inl e
      | Inr (n, g') \<Rightarrow>
          (case draw (sample (child_space self)) (nat n) w of
             Inl e \<Rightarrow> Inl e
           | Inr (xs, w') \<Rightarrow> Inr (PyList xs, self\<lparr>np_random := g'\<rparr>, w')))"

text \<open>
  \<open>all(self.child_space.contains(c) for c in x)\<close>: the elements in order, stopping at
  the first one that is refused, or that raises.
\<close>

fun all_contains :: "('v \<Rightarrow> error + bool) \<Rightarrow> 'v list \<Rightarrow> error + bool" where
  "all_contains f [] = Inr True"
| "all_contains f (c # cs) =
     (case f c of
        Inl e \<Rightarrow> Inl e
      | Inr b \<Rightarrow> if b then all_contains f cs else Inr False)"

definition Repeated_contains :: "('a pyval, 'w, 'g) Repeated \<Rightarrow> 'a pyval \<Rightarrow> error + bool" where
  "Repeated_contains self x =
     (case x of
        PyList xs \<Rightarrow>
          if int (length xs) \<le> max_len self
          then all_contains (contains (child_space self)) xs
          else Inr False
      | _ \<Rightarrow> Inr False)"

text \<open>
  The values produced by successive calls of a sampler: \<open>draws smp w xs w'\<close> when
  sampling from the world \<open>w\<close> returns the elements of \<open>xs\<close> one after the other and
  leaves the world \<open>w'\<close>.
\<close>

inductive draws :: "('w \<Rightarrow> error + 'v \<times> 'w) \<Rightarrow> 'w \<Rightarrow> 'v list \<Rightarrow> 'w \<Rightarrow> bool" where
  draws_Nil: "draws smp w [] w"
| draws_Cons: "smp w = Inr (x, w1) \<Longrightarrow> draws smp w1 xs w' \<Longrightarrow> draws smp w (x # xs) w'"

text \<open>Python's sequence types among the modelled values, and \<open>len\<close> of each.\<close>

fun is_sequence :: "'a pyval \<Rightarrow> bool" where
  "is_sequence (PyList xs) = True"
| "is_sequence (PyTuple xs) = True"
| "is_sequence (PyStr s) = True"
| "is_sequence v = False"

fun elements :: "'a pyval \<Rightarrow> 'a pyval list" where
  "elements (PyList xs) = xs"
| "elements (PyTuple xs) = xs"
| "elements (PyStr s) = map (\<lambda>c. PyStr [c]) s"
| "elements v = []"

section \<open>rllib/utils/spaces/simplex.py: Simplex\<close>

text \<open>
  The \<open>shape\<close> argument passes \<open>assert type(shape) in [tuple, list]\<close>: it is a tuple
  or a list, here of integers. Python never finds a tuple equal to a list, so the
  kind is kept.
\<close>

datatype intseq = IntTuple "int list" | IntList "int list"

fun items :: "intseq \<Rightarrow> int list" where
  "items (IntTuple ds) = ds"
| "items (IntList ds) = ds"

text \<open>\<open>shape[:-1]\<close>: a sequence of the same kind without its last item.\<close>

fun slice_but_last :: "intseq \<Rightarrow> intseq" where
  "slice_but_last (IntTuple ds) = IntTuple (butlast ds)"
| "slice_but_last (IntList ds) = IntList (butlast ds)"

text \<open>\<open>a.shape == s\<close> for the shape of an array, which is a tuple.\<close>

fun tuple_eq :: "nat list \<Rightarrow> intseq \<Rightarrow> bool" where
  "tuple_eq s (IntTuple ds) = (map int s = ds)"
| "tuple_eq s (IntList ds) = False"

record ('a, 'd, 'g) Simplex =
  shape :: intseq
  dtype :: 'd
  dim :: int
  concentration :: "'a pyval option"
  np_random_sx :: 'g

text \<open>
  \<open>__init__\<close>. \<open>shape[-1]\<close> raises on an empty sequence. A concentration that is not
  \<open>None\<close> is only checked: its \<open>shape\<close> is read (an attribute only arrays have) and
  compared, and nothing is assigned, so the attribute \<open>concentration\<close> stays unset
  (\<open>None\<close> in the record). The base class \<open>gym.Space\<close> is outside the repository: its
  initialiser stores \<open>tuple(shape)\<close> and the dtype.
\<close>

definition Simplex_init ::
  "'g \<Rightarrow> intseq \<Rightarrow> 'a pyval \<Rightarrow> 'd \<Rightarrow> error + ('a, 'd, 'g) Simplex" where
  "Simplex_init entropy shp conc dt =
     (if items shp = [] then Inl IndexError
      else
        (case conc of
           PyNone \<Rightarrow>
             Inr \<lparr>shape = IntTuple (items shp), dtype = dt, dim = last (items shp),
                  concentration = Some (PyList (replicate (nat (last (items shp))) (PyInt 1))),
                  np_random_sx = entropy\<rparr>
         | PyArray cs cd \<Rightarrow>
             if tuple_eq cs (slice_but_last shp)
             then Inr \<lparr>shape = IntTuple (items shp), dtype = dt, dim = last (items shp),
                       concentration = None, np_random_sx = entropy\<rparr>
             else Inl AssertionError
         | PyStrArray cs cd \<Rightarrow>
             if tuple_eq cs (slice_but_last shp)
             then Inr \<lparr>shape = IntTuple (items shp), dtype = dt, dim = last (items shp),
                       concentration = None, np_random_sx = entropy\<rparr>
             else Inl AssertionError
         | _ \<Rightarrow> Inl AttributeError))"

text \<open>\<open>seed\<close> reseeds the instance's own generator in place.\<close>

definition Simplex_seed ::
  "(int \<Rightarrow> error + 'g) \<Rightarrow> 'g \<Rightarrow> int option \<Rightarrow> ('a, 'd, 'g) Simplex \<Rightarrow> error + ('a, 'd, 'g) Simplex" where
  "Simplex_seed seed_state entropy sd self =
     (case sd of
        None \<Rightarrow> Inr (self\<lparr>np_random_sx := entropy\<rparr>)
      | Some n \<Rightarrow>
          (case seed_state n of
             Inl e \<Rightarrow> Inl e
           | Inr g \<Rightarrow> Inr (self\<lparr>np_random_sx := g\<rparr>)))"

text \<open>
  \<open>sample\<close> calls \<open>np.random.dirichlet\<close>, the function of numpy's global generator,
  whose state \<open>glob\<close> is therefore an argument and a result; \<open>self.np_random\<close> is not
  read. \<open>dirichlet\<close> (the sampler, given the generator state, the concentration and
  the size) and \<open>cast\<close> (the conversion of one entry by \<open>astype\<close>) are numpy's and are
  parameters. Reading an attribute that was never assigned raises.
\<close>

definition Simplex_sample ::
  "('g \<Rightarrow> 'a pyval \<Rightarrow> intseq \<Rightarrow> error + 'a ndarray \<times> 'g) \<Rightarrow> ('d \<Rightarrow> 'a \<Rightarrow> 'a) \<Rightarrow>
     ('a, 'd, 'g) Simplex \<Rightarrow> 'g \<Rightarrow> error + 'a pyval \<times> 'g" where
  "Simplex_sample dirichlet cast self glob =
     (case concentration self of
        None \<Rightarrow> Inl AttributeError
      | Some c \<Rightarrow>
          (case dirichlet glob c (slice_but_last (shape self)) of
             Inl e \<Rightarrow> Inl e
           | Inr ((s, xs), glob') \<Rightarrow> Inr (PyArray s (map (cast (dtype self)) xs), glob')))"

text \<open>
  The arithmetic of numpy that \<open>contains\<close> uses, on the scalars \<open>'a\<close>: the sum of the
  entries of one row, the test \<open>isclose(a, b)\<close> behind \<open>allclose\<close>, and the number 1.
\<close>

record 'a numpy =
  np_add :: "'a list \<Rightarrow> 'a"
  np_isclose :: "'a \<Rightarrow> 'a \<Rightarrow> bool"
  np_one :: 'a

text \<open>
  Row \<open>i\<close> of a row-major array whose last axis has size \<open>d\<close>, and \<open>np.sum(x, axis=-1)\<close>
  of an array with at least one axis: one sum per position of the leading axes.
\<close>

definition row :: "nat \<Rightarrow> 'a list \<Rightarrow> nat \<Rightarrow> 'a list" where
  "row d xs i = take d (drop (i * d) xs)"

definition np_sum_last :: "'a numpy \<Rightarrow> nat list \<Rightarrow> 'a list \<Rightarrow> 'a list" where
  "np_sum_last np s xs = map (\<lambda>i. np_add np (row (last s) xs i)) [0..<prod_list (butlast s)]"

text \<open>\<open>np.ones_like(x[..., 0])\<close>: a one per position of the leading axes.\<close>

definition ones_like_first :: "'a numpy \<Rightarrow> nat list \<Rightarrow> 'a list" where
  "ones_like_first np s = replicate (prod_list (butlast s)) (np_one np)"

definition np_allclose :: "'a numpy \<Rightarrow> 'a list \<Rightarrow> 'a list \<Rightarrow> bool" where
  "np_allclose np as bs = list_all (\<lambda>(a, b). np_isclose np a b) (zip as bs)"

text \<open>
  \<open>contains\<close>. \<open>x.shape\<close> raises for a value that is not an array. When the shapes
  are equal, \<open>np.sum\<close> is evaluated first: it raises \<open>TypeError\<close> on an array of
  strings, whatever its size, and returns on a numeric array (for an array without
  axes numpy lets \<open>axis=-1\<close> through and returns the number itself). Then
  \<open>x[..., 0]\<close> needs a last axis with a first entry: numpy raises \<open>IndexError\<close> on an
  array without axes and when the size of the last axis is 0.
\<close>

definition Simplex_contains :: "'a numpy \<Rightarrow> ('a, 'd, 'g) Simplex \<Rightarrow> 'a pyval \<Rightarrow> error + bool" where
  "Simplex_contains np self x =
     (case x of
        PyArray s xs \<Rightarrow>
          if \<not> tuple_eq s (shape self) then Inr False
          else if s = [] then Inl IndexError
          else if last s = 0 then Inl IndexError
          else Inr (np_allclose np (np_sum_last np s xs) (ones_like_first np s))
      | PyStrArray s xs \<Rightarrow>
          if \<not> tuple_eq s (shape self) then Inr False
          else Inl TypeError
      | _ \<Rightarrow> Inl AttributeError)"

text \<open>
  The plain form of a numeric array: what \<open>tolist\<close> returns, nested lists of numbers.
\<close>

datatype 'a json = JNum 'a | JList "'a json list"

text \<open>
  \<open>np.array\<close> of a list of arrays stacks them along a new first axis; arrays of
  different shapes do not stack. An empty list gives an array of shape \<open>(0,)\<close>.
\<close>

definition np_stack :: "'a ndarray list \<Rightarrow> error + 'a ndarray" where
  "np_stack arrs =
     (case arrs of
        [] \<Rightarrow> Inr ([0], [])
      | a # rest \<Rightarrow>
          if list_all (\<lambda>b. fst b = fst a) rest
          then Inr (length arrs # fst a, concat (map snd arrs))
          else Inl ValueError)"

text \<open>
  \<open>tolist\<close> of an array of shape \<open>s\<close> with entries \<open>xs\<close>: a number for an array
  without axes, else the list of the sub-arrays along the first axis.
\<close>

fun tolist :: "nat list \<Rightarrow> 'a list \<Rightarrow> 'a json" where
  "tolist [] xs = (case xs of [] \<Rightarrow> JList [] | a # _ \<Rightarrow> JNum a)"
| "tolist (n # s) xs = JList (map (\<lambda>i. tolist s (row (prod_list s) xs i)) [0..<n])"

text \<open>\<open>np.asarray\<close> of nested lists of numbers.\<close>

fun np_asarray :: "'a json \<Rightarrow> error + 'a ndarray"
  and np_asarrays :: "'a json list \<Rightarrow> error + 'a ndarray list" where
  "np_asarray (JNum a) = Inr ([], [a])"
| "np_asarray (JList js) =
     (case np_asarrays js of
        Inl e \<Rightarrow> Inl e
      | Inr arrs \<Rightarrow> np_stack arrs)"
| "np_asarrays [] = Inr []"
| "np_asarrays (j # js) =
     (case np_asarray j of
        Inl e \<Rightarrow> Inl e
      | Inr a \<Rightarrow>
          (case np_asarrays js of
             Inl e \<Rightarrow> Inl e
           | Inr arrs \<Rightarrow> Inr (a # arrs)))"

text \<open>
  \<open>to_jsonable\<close> is \<open>np.array(sample_n).tolist()\<close>; \<open>from_jsonable\<close> converts each
  item of its argument, which has to be a list to be iterated over.
\<close>

definition to_jsonable :: "'a ndarray list \<Rightarrow> error + 'a json" where
  "to_jsonable sample_n =
     (case np_stack sample_n of
        Inl e \<Rightarrow> Inl e
      | Inr (s, xs) \<Rightarrow> Inr (tolist s xs))"

definition from_jsonable :: "'a json \<Rightarrow> error + 'a ndarray list" where
  "from_jsonable sample_n =
     (case sample_n of
        JNum a \<Rightarrow> Inl TypeError
      | JList js \<Rightarrow> np_asarrays js)"

text \<open>An array is well formed when it has one entry per index of its shape.\<close>

definition wf_array :: "'a ndarray \<Rightarrow> bool" where
  "wf_array a \<longleftrightarrow> length (snd a) = prod_list (fst a)"

text \<open>
  The shape \<open>np.asarray\<close> finds for the nested lists of an array of shape \<open>s\<close>: the
  lists below an empty one are not there, so the axes after an axis of size 0 are lost.
\<close>

fun inferred_shape :: "nat list \<Rightarrow> nat list" where
  "inferred_shape [] = []"
| "inferred_shape (n # s) = (if n = 0 then [0] else n # inferred_shape s)"

text \<open>
  What the model relies on of \<open>np.random.dirichlet(alpha, size)\<close>, as numpy documents
  it, for a concentration of \<open>k \<ge> 1\<close> ones and a size of non-negative integers: it
  returns an array of shape \<open>size + (k,)\<close> with one entry per index, no entry negative,
  and every row summing to 1 as \<open>isclose\<close> tests it. \<open>nonneg\<close> is the test
  \<open>0 \<le> x\<close> on the scalars.
\<close>

definition dirichlet_contract ::
  "'a numpy \<Rightarrow> ('a \<Rightarrow> bool) \<Rightarrow> ('g \<Rightarrow> 'a pyval \<Rightarrow> intseq \<Rightarrow> error + 'a ndarray \<times> 'g) \<Rightarrow> bool" where
  "dirichlet_contract np nonneg dirichlet \<longleftrightarrow>
     (\<forall>g k ds.
        0 < k \<and> list_all (\<lambda>d. 0 \<le> d) ds \<longrightarrow>
        (\<exists>xs g'.
           dirichlet g (PyList (replicate k (PyInt 1))) (IntTuple ds) =
             Inr ((map nat ds @ [k], xs), g') \<and>
           length xs = prod_list (map nat ds) * k \<and>
           list_all nonneg xs \<and>
           list_all (\<lambda>i. np_isclose np (np_add np (row k xs i)) (np_one np))
             [0..<prod_list (map nat ds)]))"

text \<open>
  What is asked of the conversion of one entry by \<open>astype\<close> for the converted array
  to be on the simplex as well: it keeps an entry non-negative, and it keeps the sum
  of a row of non-negative entries close to 1. (Rounding to a narrower floating-point
  type moves each entry by a relative error far below the tolerance of \<open>isclose\<close>;
  a conversion to an integer type does not meet this.)
\<close>

definition cast_contract :: "'a numpy \<Rightarrow> ('a \<Rightarrow> bool) \<Rightarrow> ('a \<Rightarrow> 'a) \<Rightarrow> bool" where
  "cast_contract np nonneg c \<longleftrightarrow>
     (\<forall>x. nonneg x \<longrightarrow> nonneg (c x)) \<and>
     (\<forall>r. list_all nonneg r \<and> np_isclose np (np_add np r) (np_one np) \<longrightarrow>
          np_isclose np (np_add np (map c r)) (np_one np))"

section \<open>Concrete instances\<close>

text \<open>
  Instances of the parameters, used to run the definitions on concrete inputs: a
  generator whose state is a counter, a child space of integers, exact arithmetic on
  rationals with the default tolerances of \<open>isclose\<close> (\<open>rtol = 1e-5\<close>, \<open>atol = 1e-8\<close>),
  which agrees with floating point on the values used below, and a sampler that
  returns a point of the simplex chosen by the state of the generator and advances it.
\<close>

definition counter_randint :: "nat \<Rightarrow> int \<Rightarrow> int \<Rightarrow> error + int \<times> nat" where
  "counter_randint g low high =
     (if high \<le> low then Inl ValueError else Inr (low + int g mod (high - low), Suc g))"

definition counter_seed :: "int \<Rightarrow> error + nat" where
  "counter_seed n = (if 0 \<le> n \<and> n < 2 ^ 32 then Inr (nat n) else Inl ValueError)"

definition int_space :: "(rat pyval, nat) Space" where
  "int_space =
     \<lparr>sample = (\<lambda>w. Inr (PyInt (int w), Suc w)),
      contains = (\<lambda>v. Inr (case v of PyInt i \<Rightarrow> True | _ \<Rightarrow> False))\<rparr>"

definition exact_numpy :: "rat numpy" where
  "exact_numpy =
     \<lparr>np_add = sum_list,
      np_isclose = (\<lambda>a b. \<bar>a - b\<bar> \<le> 1 / 100000000 + 1 / 100000 * \<bar>b\<bar>),
      np_one = 1\<rparr>"

definition point :: "nat \<Rightarrow> nat \<Rightarrow> rat list" where
  "point g k =
     (1 - of_nat (k - 1) / (of_nat k * of_nat (g + 2))) #
     replicate (k - 1) (1 / (of_nat k * of_nat (g + 2)))"

definition counter_dirichlet :: "nat \<Rightarrow> rat pyval \<Rightarrow> intseq \<Rightarrow> error + rat ndarray \<times> nat" where
  "counter_dirichlet g conc sz =
     (case conc of
        PyList cs \<Rightarrow>
          if list_all (\<lambda>d. 0 \<le> d) (items sz) \<and> cs \<noteq> []
          then Inr ((map nat (items sz) @ [length cs],
                     concat (replicate (prod_list (map nat (items sz))) (point g (length cs)))),
                    Suc g)
          else Inl ValueError
      | _ \<Rightarrow> Inl TypeError)"

section \<open>Repeated: sampling and membership\<close>

lemma draw_draws:
  "draw smp n w = Inr (xs, w') \<Longrightarrow> length xs = n \<and> draws smp w xs w'"
proof (induction n arbitrary: w xs)
  case 0
  then show ?case by (auto intro: draws.intros)
next
  case (Suc n)
  from Suc.prems obtain x w1 ys where
    s: "smp w = Inr (x, w1)" and d: "draw smp n w1 = Inr (ys, w')" and xs: "xs = x # ys"
    by (auto split: sum.splits prod.splits)
  from Suc.IH [OF d] have "length ys = n" "draws smp w1 ys w'" by simp_all
  with s xs show ?case by (auto intro: draws.intros)
qed

lemma draw_total:
  "\<forall>w. \<exists>v w'. smp w = Inr (v, w') \<Longrightarrow> \<exists>xs w'. draw smp n w = Inr (xs, w')"
proof (induction n arbitrary: w)
  case 0
  show ?case by simp
next
  case (Suc n)
  from Suc.prems obtain v w1 where s: "smp w = Inr (v, w1)" by blast
  from Suc.IH [OF Suc.prems] obtain xs w' where "draw smp n w1 = Inr (xs, w')" by blast
  with s show ?case by simp
qed

lemma all_contains_True_iff:
  "all_contains f xs = Inr True \<longleftrightarrow> (\<forall>c\<in>set xs. f c = Inr True)"
  by (induction xs) (auto split: sum.splits)

lemma all_contains_returns:
  "\<forall>c\<in>set xs. \<exists>b. f c = Inr b \<Longrightarrow> \<exists>b. all_contains f xs = Inr b"
  by (induction xs) (auto split: sum.splits)

lemma draws_accepted:
  "draws smp w xs w' \<Longrightarrow> (\<And>w v w'. smp w = Inr (v, w') \<Longrightarrow> f v = Inr True) \<Longrightarrow> c \<in> set xs \<Longrightarrow> f c = Inr True"
  by (induction rule: draws.induct) auto

lemma counter_randint_contract: "randint_contract counter_randint"
proof -
  have "low + int g mod (high - low) < high" if "low < high" for g :: nat and low high :: int
    using pos_mod_bound [of "high - low" "int g"] that by linarith
  moreover have "low \<le> low + int g mod (high - low)" if "low < high" for g :: nat and low high :: int
    using pos_mod_sign [of "high - low" "int g"] that by linarith
  ultimately show ?thesis
    unfolding randint_contract_def counter_randint_def by auto
qed

text \<open>
  Claim C4. For \<open>max_len \<ge> 1\<close>, every value \<open>sample\<close> returns is a list whose
  length is between 1 and \<open>max_len\<close>, whose elements are the results of that many
  successive calls of the child's \<open>sample\<close>, and which \<open>contains\<close> accepts when the
  child accepts its own samples. If the child's \<open>sample\<close> always returns, so does
  \<open>sample\<close>.
\<close>

theorem Repeated_sample_length_and_membership:
  assumes rc: "randint_contract randint" and ml: "1 \<le> max_len self"
  shows "(Repeated_sample randint self w = Inr (v, self', w') \<longrightarrow>
           (\<exists>xs. v = PyList xs \<and> 1 \<le> length xs \<and> int (length xs) \<le> max_len self \<and>
                 draws (sample (child_space self)) w xs w' \<and>
                 ((\<forall>w0 v0 w1. sample (child_space self) w0 = Inr (v0, w1) \<longrightarrow>
                      contains (child_space self) v0 = Inr True) \<longrightarrow>
                  Repeated_contains self v = Inr True))) \<and>
         ((\<forall>w0. \<exists>v0 w1. sample (child_space self) w0 = Inr (v0, w1)) \<longrightarrow>
           (\<exists>v1 self1 w1. Repeated_sample randint self w = Inr (v1, self1, w1)))"
proof (intro conjI impI)
  from ml have "(1::int) < max_len self + 1" by simp
  with rc have "\<exists>n g'. randint (np_random self) 1 (max_len self + 1) = Inr (n, g') \<and> 1 \<le> n \<and> n < max_len self + 1"
    unfolding randint_contract_def by blast
  then obtain n g' where
    r: "randint (np_random self) 1 (max_len self + 1) = Inr (n, g')" and n: "1 \<le> n" "n < max_len self + 1"
    by blast
  {
    assume "Repeated_sample randint self w = Inr (v, self', w')"
    with r obtain xs where d: "draw (sample (child_space self)) (nat n) w = Inr (xs, w')" and v: "v = PyList xs"
      by (auto simp: Repeated_sample_def split: sum.splits prod.splits)
    from draw_draws [OF d] have len: "length xs = nat n" and dr: "draws (sample (child_space self)) w xs w'"
      by simp_all
    from len n have l1: "1 \<le> length xs" and l2: "int (length xs) \<le> max_len self" by simp_all
    have acc: "Repeated_contains self v = Inr True"
      if "\<forall>w0 v0 w1. sample (child_space self) w0 = Inr (v0, w1) \<longrightarrow> contains (child_space self) v0 = Inr True"
    proof -
      have "\<forall>c\<in>set xs. contains (child_space self) c = Inr True"
        using draws_accepted [OF dr] that by blast
      then have "all_contains (contains (child_space self)) xs = Inr True"
        by (simp add: all_contains_True_iff)
      with l2 v show ?thesis by (simp add: Repeated_contains_def)
    qed
    from v l1 l2 dr acc
    show "\<exists>xs. v = PyList xs \<and> 1 \<le> length xs \<and> int (length xs) \<le> max_len self \<and>
                 draws (sample (child_space self)) w xs w' \<and>
                 ((\<forall>w0 v0 w1. sample (child_space self) w0 = Inr (v0, w1) \<longrightarrow>
                      contains (child_space self) v0 = Inr True) \<longrightarrow>
                  Repeated_contains self v = Inr True)"
      by blast
  }
  {
    assume "\<forall>w0. \<exists>v0 w1. sample (child_space self) w0 = Inr (v0, w1)"
    from draw_total [OF this] obtain xs w1 where "draw (sample (child_space self)) (nat n) w = Inr (xs, w1)"
      by blast
    with r show "\<exists>v1 self1 w1. Repeated_sample randint self w = Inr (v1, self1, w1)"
      by (simp add: Repeated_sample_def)
  }
qed

theorem Repeated_sample_length_and_membership_witness:
  "randint_contract counter_randint \<and>
   1 \<le> max_len (Repeated_init (7::nat) int_space 3) \<and>
   Repeated_sample counter_randint (Repeated_init 7 int_space 3) 10 =
     Inr (PyList [PyInt 10, PyInt 11], Repeated_init 8 int_space 3, 12) \<and>
   draws (sample int_space) 10 [PyInt 10, PyInt 11] 12 \<and>
   Repeated_contains (Repeated_init (7::nat) int_space 3) (PyList [PyInt 10, PyInt 11]) = Inr True"
proof -
  let ?R = "Repeated_init (7::nat) int_space 3"
  have ml: "1 \<le> max_len ?R"
    by (simp add: Repeated_init_def)
  have ev: "Repeated_sample counter_randint ?R 10 =
      Inr (PyList [PyInt 10, PyInt 11], Repeated_init 8 int_space 3, 12)"
    by (simp add: Repeated_sample_def Repeated_init_def counter_randint_def int_space_def
        numeral_2_eq_2)
  have acc: "\<forall>w0 v0 w1. sample (child_space ?R) w0 = Inr (v0, w1) \<longrightarrow>
      contains (child_space ?R) v0 = Inr True"
    by (auto simp: Repeated_init_def int_space_def)
  from Repeated_sample_length_and_membership [OF counter_randint_contract ml,
      of 10 "PyList [PyInt 10, PyInt 11]" "Repeated_init 8 int_space 3" 12] ev acc
  have "draws (sample (child_space ?R)) 10 [PyInt 10, PyInt 11] 12"
    and "Repeated_contains ?R (PyList [PyInt 10, PyInt 11]) = Inr True"
    by auto
  with ml ev counter_randint_contract show ?thesis
    by (simp add: Repeated_init_def)
qed

text \<open>
  Seeding replaces the generator and nothing else: two instances with the same child
  and the same \<open>max_len\<close> are equal after the same seed, and so are their samples.
\<close>

lemma Repeated_seed_same:
  assumes "Repeated_seed seed_state e1 (Some n) a = Inr a'"
    and "Repeated_seed seed_state e2 (Some n) b = Inr b'"
    and "child_space a = child_space b" and "max_len a = max_len b"
  shows "a' = b'"
proof -
  from assms(1) obtain g where g: "seed_state n = Inr g" and a': "a' = a\<lparr>np_random := g\<rparr>"
    by (auto simp: Repeated_seed_def split: sum.splits)
  from assms(2) g have b': "b' = b\<lparr>np_random := g\<rparr>"
    by (auto simp: Repeated_seed_def)
  from a' b' assms(3,4) show ?thesis by simp
qed

text \<open>
  Claim C10. With \<open>max_len < 1\<close> the range \<open>randint\<close> is asked to draw from is empty
  and \<open>sample\<close> raises \<open>ValueError\<close> instead of returning, while \<open>contains\<close> still
  accepts the empty list when \<open>max_len = 0\<close>. (That \<open>sample\<close> returns for
  \<open>max_len \<ge> 1\<close> is part of the theorem on sampling above.)
\<close>

theorem Repeated_sample_raises_below_one:
  assumes rc: "randint_contract randint"
  shows "(max_len self < 1 \<longrightarrow> Repeated_sample randint self w = Inl ValueError) \<and>
         (max_len self = 0 \<longrightarrow> Repeated_contains self (PyList []) = Inr True)"
proof (intro conjI impI)
  assume "max_len self < 1"
  then have "max_len self + 1 \<le> 1" by simp
  with rc have "randint (np_random self) 1 (max_len self + 1) = Inl ValueError"
    unfolding randint_contract_def by blast
  then show "Repeated_sample randint self w = Inl ValueError"
    by (simp add: Repeated_sample_def)
next
  assume "max_len self = 0"
  then show "Repeated_contains self (PyList []) = Inr True"
    by (simp add: Repeated_contains_def)
qed

theorem Repeated_sample_raises_below_one_witness:
  "randint_contract counter_randint \<and>
   max_len (Repeated_init (7::nat) int_space 0) < 1 \<and>
   Repeated_sample counter_randint (Repeated_init (7::nat) int_space 0) (10::nat) = Inl ValueError \<and>
   max_len (Repeated_init (7::nat) int_space 0) = 0 \<and>
   Repeated_contains (Repeated_init (7::nat) int_space 0) (PyList []) = Inr True"
  using Repeated_sample_raises_below_one [OF counter_randint_contract,
      of "Repeated_init (7::nat) int_space 0" 10] counter_randint_contract
  by (simp add: Repeated_init_def)

text \<open>
  Claim C5 speaks of any sequence type, but \<open>contains\<close> tests \<open>isinstance(x, list)\<close>:
  a tuple is a sequence, short enough and with accepted elements, and is refused.
\<close>

theorem Repeated_contains_tuple_counterexample:
  "is_sequence (PyTuple [PyInt 1, PyInt 2 :: rat pyval]) \<and>
   int (length (elements (PyTuple [PyInt 1, PyInt 2 :: rat pyval]))) \<le> max_len (Repeated_init (7::nat) int_space 3) \<and>
   list_all (\<lambda>c. contains (child_space (Repeated_init (7::nat) int_space 3)) c = Inr True)
     (elements (PyTuple [PyInt 1, PyInt 2])) \<and>
   Repeated_contains (Repeated_init (7::nat) int_space 3) (PyTuple [PyInt 1, PyInt 2]) = Inr False"
  by (simp add: Repeated_contains_def Repeated_init_def int_space_def)

text \<open>
  Claim C5, amended. \<open>contains(x)\<close> returns true exactly when \<open>x\<close> is a list of at
  most \<open>max_len\<close> elements, each of which the child's \<open>contains\<close> accepts; every
  value that is not a list is refused, and for \<open>max_len \<ge> 1\<close> the empty list is
  accepted.
\<close>

theorem Repeated_contains_iff:
  "(Repeated_contains self x = Inr True \<longleftrightarrow>
      (\<exists>xs. x = PyList xs \<and> int (length xs) \<le> max_len self \<and>
            (\<forall>c\<in>set xs. contains (child_space self) c = Inr True))) \<and>
   ((\<forall>xs. x \<noteq> PyList xs) \<longrightarrow> Repeated_contains self x = Inr False) \<and>
   (1 \<le> max_len self \<longrightarrow> Repeated_contains self (PyList []) = Inr True)"
  by (cases x) (auto simp: Repeated_contains_def all_contains_True_iff)

theorem Repeated_contains_iff_witness:
  "Repeated_contains (Repeated_init (7::nat) int_space 3) (PyList [PyInt 1, PyInt 2]) = Inr True \<and>
   Repeated_contains (Repeated_init (7::nat) int_space 3) (PyList [PyInt 1, PyNone]) = Inr False \<and>
   Repeated_contains (Repeated_init (7::nat) int_space 3) (PyList [PyInt 1, PyInt 2, PyInt 3, PyInt 4]) = Inr False \<and>
   Repeated_contains (Repeated_init (7::nat) int_space 3) (PyInt 5) = Inr False \<and>
   1 \<le> max_len (Repeated_init (7::nat) int_space 3) \<and>
   Repeated_contains (Repeated_init (7::nat) int_space 3) (PyList []) = Inr True"
proof -
  let ?R = "Repeated_init (7::nat) int_space 3"
  have a: "Repeated_contains ?R (PyList [PyInt 1, PyInt 2]) = Inr True"
    using Repeated_contains_iff [of ?R "PyList [PyInt 1, PyInt 2]"]
    by (simp add: Repeated_init_def int_space_def)
  have b: "Repeated_contains ?R (PyInt 5) = Inr False"
    using Repeated_contains_iff [of ?R "PyInt 5"] by simp
  have c: "1 \<le> max_len ?R" by (simp add: Repeated_init_def)
  have d: "Repeated_contains ?R (PyList []) = Inr True"
    using Repeated_contains_iff [of ?R "PyList []"] c by simp
  have e: "Repeated_contains ?R (PyList [PyInt 1, PyNone]) = Inr False"
    "Repeated_contains ?R (PyList [PyInt 1, PyInt 2, PyInt 3, PyInt 4]) = Inr False"
    by (simp_all add: Repeated_contains_def Repeated_init_def int_space_def)
  from a b c d e show ?thesis by simp
qed

section \<open>Simplex: construction, seeding and membership\<close>

lemma Simplex_init_explicit_concentration:
  "Simplex_init entropy shp (PyArray cs cd) dt = Inr s \<Longrightarrow> concentration s = None"
  by (auto simp: Simplex_init_def split: if_splits)

lemma Simplex_init_default_concentration:
  "Simplex_init entropy shp PyNone dt = Inr s \<Longrightarrow>
     concentration s = Some (PyList (replicate (nat (dim s)) (PyInt 1)))"
  by (auto simp: Simplex_init_def split: if_splits)

lemma Simplex_sample_ignores_np_random:
  "Simplex_sample dirichlet cast (self\<lparr>np_random_sx := g\<rparr>) glob = Simplex_sample dirichlet cast self glob"
  by (auto simp: Simplex_sample_def split: option.splits sum.splits)

lemma Simplex_sample_after_seed:
  "Simplex_seed seed_state entropy sd self = Inr self' \<Longrightarrow>
     Simplex_sample dirichlet cast self' glob = Simplex_sample dirichlet cast self glob"
  by (auto simp: Simplex_seed_def Simplex_sample_def split: option.splits sum.splits)

text \<open>
  Claim C1 does not hold of the code. Built with a concentration, as the docstring of
  the class invites, \<open>Simplex((3, 4), concentration=ones((3,)))\<close> is constructed
  without error and has no attribute \<open>concentration\<close>: the branch checks the argument
  and stores nothing, and \<open>sample\<close> raises on reading it. Only the default branch
  fills the attribute, with \<open>dim\<close> ones (lemma \<open>Simplex_init_default_concentration\<close>).
\<close>

theorem Simplex_explicit_concentration_unset:
  "Simplex_init (0::nat) (IntTuple [3, 4]) (PyArray [3] [1, 1, 1 :: rat]) ''float32'' =
     Inr \<lparr>shape = IntTuple [3, 4], dtype = ''float32'', dim = 4, concentration = None,
          np_random_sx = 0\<rparr> \<and>
   Simplex_sample counter_dirichlet (\<lambda>d x. x)
     \<lparr>shape = IntTuple [3, 4], dtype = ''float32'', dim = 4, concentration = None,
      np_random_sx = 0\<rparr> 0 = Inl AttributeError"
  by (simp add: Simplex_init_def Simplex_sample_def)

text \<open>
  Claim C2 does not hold of \<open>Simplex\<close>. \<open>seed\<close> reseeds \<open>self.np_random\<close>, but
  \<open>sample\<close> draws from numpy's global generator: after \<open>seed(0)\<close> the first sample
  is decided by the state of the global generator (here \<open>0\<close>, then \<open>1\<close>), not by the
  seed. In general \<open>sample\<close> is the same before and after any \<open>seed\<close> (lemma
  \<open>Simplex_sample_after_seed\<close>). \<open>Repeated.sample\<close> does draw its length from the
  instance's own generator (lemma \<open>Repeated_seed_same\<close>).
\<close>

theorem Simplex_sample_not_reseeded:
  "Simplex_seed counter_seed 9 (Some 0)
     \<lparr>shape = IntTuple [2], dtype = ''float32'', dim = 2,
      concentration = Some (PyList [PyInt 1, PyInt 1 :: rat pyval]), np_random_sx = (5::nat)\<rparr> =
     Inr \<lparr>shape = IntTuple [2], dtype = ''float32'', dim = 2,
          concentration = Some (PyList [PyInt 1, PyInt 1]), np_random_sx = 0\<rparr> \<and>
   Simplex_sample counter_dirichlet (\<lambda>d x. x)
     \<lparr>shape = IntTuple [2], dtype = ''float32'', dim = 2,
      concentration = Some (PyList [PyInt 1, PyInt 1]), np_random_sx = 0\<rparr> 0 =
     Inr (PyArray [2] [3 / 4, 1 / 4], 1) \<and>
   Simplex_sample counter_dirichlet (\<lambda>d x. x)
     \<lparr>shape = IntTuple [2], dtype = ''float32'', dim = 2,
      concentration = Some (PyList [PyInt 1, PyInt 1]), np_random_sx = 0\<rparr> 1 =
     Inr (PyArray [2] [5 / 6, 1 / 6], 2)"
  by (simp add: Simplex_seed_def counter_seed_def Simplex_sample_def counter_dirichlet_def point_def)

text \<open>
  Claim C3 says that \<open>contains\<close> never raises. \<open>Simplex.contains\<close> reads \<open>x.shape\<close>
  first, so a value that is not an array, such as the integer 5, raises
  \<open>AttributeError\<close>.
\<close>

theorem Simplex_contains_not_array_counterexample:
  "Simplex_init (0::nat) (IntTuple [2]) (PyNone :: rat pyval) ''float32'' =
     Inr \<lparr>shape = IntTuple [2], dtype = ''float32'', dim = 2,
          concentration = Some (PyList [PyInt 1, PyInt 1]), np_random_sx = 0\<rparr> \<and>
   Simplex_contains exact_numpy
     \<lparr>shape = IntTuple [2], dtype = ''float32'', dim = 2,
      concentration = Some (PyList [PyInt 1, PyInt 1]), np_random_sx = (0::nat)\<rparr> (PyInt 5) =
     Inl AttributeError"
  by (simp add: Simplex_init_def Simplex_contains_def numeral_2_eq_2)

text \<open>
  Claim C3, amended. \<open>Repeated.contains\<close> returns false for every value that is not a
  list, and returns a truth value for a list whenever the child's \<open>contains\<close> returns
  one for each element. \<open>Simplex.contains\<close> raises \<open>AttributeError\<close> for every value
  that is not an array and returns false for every array whose shape differs from the
  stored one; for an array of the stored shape it returns a truth value when the
  array is numeric and its last axis is not empty, and raises \<open>TypeError\<close> when it is
  an array of strings.
\<close>

theorem contains_returns_or_raises:
  "((\<forall>xs. x \<noteq> PyList xs) \<longrightarrow> Repeated_contains self x = Inr False) \<and>
   ((\<forall>c\<in>set xs. \<exists>b. contains (child_space self) c = Inr b) \<longrightarrow>
      (\<exists>b. Repeated_contains self (PyList xs) = Inr b)) \<and>
   ((\<forall>s ys. y \<noteq> PyArray s ys) \<and> (\<forall>s zs. y \<noteq> PyStrArray s zs) \<longrightarrow>
      Simplex_contains np sx y = Inl AttributeError) \<and>
   (\<not> tuple_eq s (shape sx) \<longrightarrow>
      Simplex_contains np sx (PyArray s ys) = Inr False \<and>
      Simplex_contains np sx (PyStrArray s zs) = Inr False) \<and>
   (tuple_eq s (shape sx) \<and> s \<noteq> [] \<and> last s \<noteq> 0 \<longrightarrow>
      (\<exists>b. Simplex_contains np sx (PyArray s ys) = Inr b)) \<and>
   (tuple_eq s (shape sx) \<longrightarrow> Simplex_contains np sx (PyStrArray s zs) = Inl TypeError)"
proof (intro conjI impI)
  assume "\<forall>xs. x \<noteq> PyList xs"
  then show "Repeated_contains self x = Inr False"
    by (cases x) (simp_all add: Repeated_contains_def)
next
  assume "\<forall>c\<in>set xs. \<exists>b. contains (child_space self) c = Inr b"
  from all_contains_returns [OF this] show "\<exists>b. Repeated_contains self (PyList xs) = Inr b"
    by (auto simp: Repeated_contains_def)
next
  assume "(\<forall>s ys. y \<noteq> PyArray s ys) \<and> (\<forall>s zs. y \<noteq> PyStrArray s zs)"
  then show "Simplex_contains np sx y = Inl AttributeError"
    by (cases y) (simp_all add: Simplex_contains_def)
next
  assume "\<not> tuple_eq s (shape sx)"
  then show "Simplex_contains np sx (PyArray s ys) = Inr False"
    and "Simplex_contains np sx (PyStrArray s zs) = Inr False"
    by (simp_all add: Simplex_contains_def)
next
  assume "tuple_eq s (shape sx) \<and> s \<noteq> [] \<and> last s \<noteq> 0"
  then show "\<exists>b. Simplex_contains np sx (PyArray s ys) = Inr b"
    by (simp add: Simplex_contains_def)
next
  assume "tuple_eq s (shape sx)"
  then show "Simplex_contains np sx (PyStrArray s zs) = Inl TypeError"
    by (simp add: Simplex_contains_def)
qed

theorem contains_returns_or_raises_witness:
  "Repeated_contains (Repeated_init (7::nat) int_space 3) (PyInt 5) = Inr False \<and>
   (\<exists>b. Repeated_contains (Repeated_init (7::nat) int_space 3) (PyList [PyInt 1, PyNone]) = Inr b) \<and>
   Simplex_contains exact_numpy
     \<lparr>shape = IntTuple [2], dtype = ''float32'', dim = 2,
      concentration = Some (PyList [PyInt 1, PyInt 1]), np_random_sx = (0::nat)\<rparr>
     (PyList [PyFloat (1 / 2), PyFloat (1 / 2)]) = Inl AttributeError \<and>
   Simplex_contains exact_numpy
     \<lparr>shape = IntTuple [2], dtype = ''float32'', dim = 2,
      concentration = Some (PyList [PyInt 1, PyInt 1]), np_random_sx = (0::nat)\<rparr>
     (PyArray [3] [1 / 2, 1 / 4, 1 / 4]) = Inr False \<and>
   (\<exists>b. Simplex_contains exact_numpy
     \<lparr>shape = IntTuple [2], dtype = ''float32'', dim = 2,
      concentration = Some (PyList [PyInt 1, PyInt 1]), np_random_sx = (0::nat)\<rparr>
     (PyArray [2] [1 / 2, 1 / 2]) = Inr b) \<and>
   Simplex_contains exact_numpy
     \<lparr>shape = IntTuple [2], dtype = ''float32'', dim = 2,
      concentration = Some (PyList [PyInt 1, PyInt 1]), np_random_sx = (0::nat)\<rparr>
     (PyStrArray [2] [''a'', ''b'']) = Inl TypeError"
proof -
  let ?R = "Repeated_init (7::nat) int_space 3"
  let ?S = "\<lparr>shape = IntTuple [2], dtype = ''float32'', dim = 2,
      concentration = Some (PyList [PyInt 1, PyInt 1 :: rat pyval]), np_random_sx = (0::nat)\<rparr>"
  note t = contains_returns_or_raises [of "PyInt 5" ?R "[PyInt 1, PyNone]"
      "PyList [PyFloat (1 / 2), PyFloat (1 / 2)]" exact_numpy ?S "[2]" "[1 / 2, 1 / 2]"
      "[''a'', ''b'']"]
  note u = contains_returns_or_raises [of "PyInt 5" ?R "[PyInt 1, PyNone]"
      "PyList [PyFloat (1 / 2), PyFloat (1 / 2)]" exact_numpy ?S "[3]" "[1 / 2, 1 / 4, 1 / 4]"
      "[''a'', ''b'']"]
  have 1: "Repeated_contains ?R (PyInt 5) = Inr False"
    using t by simp
  have 2: "\<exists>b. Repeated_contains ?R (PyList [PyInt 1, PyNone]) = Inr b"
    using t by (simp add: Repeated_init_def int_space_def)
  have 3: "Simplex_contains exact_numpy ?S (PyList [PyFloat (1 / 2), PyFloat (1 / 2)]) = Inl AttributeError"
    using t by simp
  have 4: "Simplex_contains exact_numpy ?S (PyArray [3] [1 / 2, 1 / 4, 1 / 4]) = Inr False"
    using u by simp
  have 5: "\<exists>b. Simplex_contains exact_numpy ?S (PyArray [2] [1 / 2, 1 / 2]) = Inr b"
    using t by simp
  have 6: "Simplex_contains exact_numpy ?S (PyStrArray [2] [''a'', ''b'']) = Inl TypeError"
    using t by simp
  from 1 2 3 4 5 6 show ?thesis by blast
qed

text \<open>
  Claim C7 gives the condition under which \<open>contains\<close> returns true. For the space of
  shape \<open>(0, 0)\<close> and the empty array of that shape the condition holds (the shapes are
  equal and there is no position on the leading axis), yet \<open>x[..., 0]\<close> raises
  \<open>IndexError\<close>.
\<close>

theorem Simplex_contains_empty_axis_counterexample:
  "Simplex_init (0::nat) (IntTuple [0, 0]) (PyNone :: rat pyval) ''float32'' =
     Inr \<lparr>shape = IntTuple [0, 0], dtype = ''float32'', dim = 0,
          concentration = Some (PyList []), np_random_sx = 0\<rparr> \<and>
   tuple_eq [0, 0] (shape \<lparr>shape = IntTuple [0, 0], dtype = ''float32'', dim = 0,
          concentration = Some (PyList [] :: rat pyval), np_random_sx = (0::nat)\<rparr>) \<and>
   list_all (\<lambda>i. np_isclose exact_numpy (np_add exact_numpy (row 0 [] i)) (np_one exact_numpy))
     [0..<prod_list [0]] \<and>
   Simplex_contains exact_numpy
     \<lparr>shape = IntTuple [0, 0], dtype = ''float32'', dim = 0,
      concentration = Some (PyList []), np_random_sx = (0::nat)\<rparr> (PyArray [0, 0] []) =
     Inl IndexError"
  by (simp add: Simplex_init_def Simplex_contains_def)

text \<open>
  Claim C7, amended. \<open>contains(x)\<close> returns true exactly when \<open>x\<close> is an array whose
  shape equals the stored shape, whose last axis is not empty, and whose sum along the
  last axis is close to 1, by \<open>isclose\<close>, at every position of the leading axes. The
  sign of the entries is not looked at: \<open>[1.5, -0.5]\<close> is accepted.
\<close>

theorem Simplex_contains_iff:
  "Simplex_contains np self x = Inr True \<longleftrightarrow>
     (\<exists>s xs. x = PyArray s xs \<and> tuple_eq s (shape self) \<and> s \<noteq> [] \<and> last s \<noteq> 0 \<and>
        (\<forall>i < prod_list (butlast s). np_isclose np (np_add np (row (last s) xs i)) (np_one np)))"
proof (cases x)
  case (PyArray s xs)
  have "np_allclose np (np_sum_last np s xs) (ones_like_first np s) \<longleftrightarrow>
      (\<forall>i < prod_list (butlast s). np_isclose np (np_add np (row (last s) xs i)) (np_one np))"
    by (simp add: np_allclose_def np_sum_last_def ones_like_first_def list_all_length)
  with PyArray show ?thesis
    by (auto simp: Simplex_contains_def)
qed (simp_all add: Simplex_contains_def)

theorem Simplex_contains_iff_witness:
  "Simplex_contains exact_numpy
     \<lparr>shape = IntTuple [2], dtype = ''float32'', dim = 2,
      concentration = Some (PyList [PyInt 1, PyInt 1]), np_random_sx = (0::nat)\<rparr>
     (PyArray [2] [3 / 2, - 1 / 2]) = Inr True \<and>
   Simplex_contains exact_numpy
     \<lparr>shape = IntTuple [2, 2], dtype = ''float32'', dim = 2,
      concentration = Some (PyList [PyInt 1, PyInt 1]), np_random_sx = (0::nat)\<rparr>
     (PyArray [2, 2] [1 / 4, 3 / 4, 1 / 2, 1 / 4]) \<noteq> Inr True"
proof -
  let ?S = "\<lparr>shape = IntTuple [2], dtype = ''float32'', dim = 2,
      concentration = Some (PyList [PyInt 1, PyInt 1 :: rat pyval]), np_random_sx = (0::nat)\<rparr>"
  let ?T = "\<lparr>shape = IntTuple [2, 2], dtype = ''float32'', dim = 2,
      concentration = Some (PyList [PyInt 1, PyInt 1 :: rat pyval]), np_random_sx = (0::nat)\<rparr>"
  have a: "Simplex_contains exact_numpy ?S (PyArray [2] [3 / 2, - 1 / 2]) = Inr True"
    using Simplex_contains_iff [of exact_numpy ?S "PyArray [2] [3 / 2, - 1 / 2]"]
    by (simp add: exact_numpy_def row_def)
  have "\<not> np_isclose exact_numpy (np_add exact_numpy (row 2 [1 / 4, 3 / 4, 1 / 2, 1 / 4] 1)) (np_one exact_numpy)"
    by (simp add: exact_numpy_def row_def)
  then have b: "Simplex_contains exact_numpy ?T (PyArray [2, 2] [1 / 4, 3 / 4, 1 / 2, 1 / 4]) \<noteq> Inr True"
    using Simplex_contains_iff [of exact_numpy ?T "PyArray [2, 2] [1 / 4, 3 / 4, 1 / 2, 1 / 4]"]
    by auto
  from a b show ?thesis by simp
qed

section \<open>ListBatch\<close>

text \<open>
  Claim C9. The constructor stores its three arguments as they are, whatever they are;
  the fields read back unchanged; the string is the fixed text around the
  representations of the three fields, \<open>__str__\<close> gives the same string, and with
  \<open>max_len = 5\<close> it contains \<open>max_len=5\<close>. (Values have no identity in HOL, so that no
  copy is made is not expressed beyond equality.)
\<close>

theorem ListBatch_stores_and_formats:
  "value_lb (ListBatch_init v ls m) = v \<and>
   lengths_lb (ListBatch_init v ls m) = ls \<and>
   max_len_lb (ListBatch_init v ls m) = m \<and>
   ListBatch_repr rv rl (ListBatch_init v ls m) =
     ''ListBatch(value='' @ rv v @ '', lengths='' @ rl ls @ '', max_len='' @ str_int m @ '')'' \<and>
   ListBatch_str rv rl (ListBatch_init v ls m) = ListBatch_repr rv rl (ListBatch_init v ls m) \<and>
   ListBatch_repr rv repr_int_list (ListBatch_init v [3, 5] 5) =
     ''ListBatch(value='' @ rv v @ '', lengths=[3, 5], max_len=5)'' \<and>
   sublist ''max_len=5'' (ListBatch_repr rv rl (ListBatch_init v ls 5))"
proof -
  have five: "str_int 5 = ''5''"
    by (simp add: str_int_def str_nat.simps digit_char_def)
  have three: "str_int 3 = ''3''"
    by (simp add: str_int_def str_nat.simps digit_char_def)
  have "ListBatch_repr rv rl (ListBatch_init v ls 5) =
      (''ListBatch(value='' @ rv v @ '', lengths='' @ rl ls @ '', '') @ ''max_len=5'' @ '')''"
    by (simp add: ListBatch_repr_def ListBatch_init_def five)
  then have "sublist ''max_len=5'' (ListBatch_repr rv rl (ListBatch_init v ls 5))"
    unfolding sublist_def by blast
  then show ?thesis
    by (simp add: ListBatch_repr_def ListBatch_str_def ListBatch_init_def repr_int_list_def five three)
qed

section \<open>Simplex: the plain form and back\<close>

lemma inferred_shape_id: "0 \<notin> set s \<Longrightarrow> inferred_shape s = s"
  by (induction s) auto

lemma row_Suc: "row p xs (Suc i) = row p (drop p xs) i"
  by (simp add: row_def add.commute)

lemma rows_concat: "length xs = n * p \<Longrightarrow> concat (map (row p xs) [0..<n]) = xs"
proof (induction n arbitrary: xs)
  case 0
  then show ?case by simp
next
  case (Suc n)
  have "[0..<Suc n] = 0 # map Suc [0..<n]"
    by (simp add: upt_conv_Cons map_Suc_upt del: upt_Suc)
  then have "concat (map (row p xs) [0..<Suc n]) =
      row p xs 0 @ concat (map (row p (drop p xs)) [0..<n])"
    by (simp add: comp_def row_Suc del: upt_Suc)
  also have "concat (map (row p (drop p xs)) [0..<n]) = drop p xs"
    using Suc.prems by (intro Suc.IH) simp
  finally show ?case by (simp add: row_def)
qed

lemma row_length: "length xs = n * p \<Longrightarrow> i < n \<Longrightarrow> length (row p xs i) = p"
proof -
  assume len: "length xs = n * p" and i: "i < n"
  from i have "Suc i * p \<le> n * p" by (intro mult_le_mono1) simp
  then have "p \<le> n * p - i * p" by simp
  with len show ?thesis by (simp add: row_def)
qed

lemma np_asarrays_map:
  "\<forall>i\<in>set is. np_asarray (f i) = Inr (g i) \<Longrightarrow> np_asarrays (map f is) = Inr (map g is)"
  by (induction "is") auto

lemma np_stack_same_shape:
  "0 < n \<Longrightarrow> np_stack (map (\<lambda>i. (s, h i)) [0..<n]) = Inr (n # s, concat (map h [0..<n]))"
proof -
  assume "0 < n"
  then have u: "[0..<n] = 0 # [Suc 0..<n]" by (simp add: upt_conv_Cons)
  have "np_stack (map (\<lambda>i. (s, h i)) (0 # [Suc 0..<n])) =
      Inr (length (0 # [Suc 0..<n]) # s, concat (map h (0 # [Suc 0..<n])))"
    by (simp add: np_stack_def list_all_iff comp_def del: upt_Suc)
  with u \<open>0 < n\<close> show ?thesis by (simp del: upt_Suc)
qed

lemma np_asarray_tolist:
  "length xs = prod_list s \<Longrightarrow> np_asarray (tolist s xs) = Inr (inferred_shape s, xs)"
proof (induction s arbitrary: xs)
  case Nil
  then obtain a where "xs = [a]" by (cases xs) auto
  then show ?case by simp
next
  case (Cons n s)
  let ?p = "prod_list s"
  from Cons.prems have len: "length xs = n * ?p" by simp
  have each: "\<forall>i\<in>set [0..<n]. np_asarray (tolist s (row ?p xs i)) = Inr (inferred_shape s, row ?p xs i)"
    using row_length [OF len] by (auto intro: Cons.IH)
  have arrs: "np_asarrays (map (\<lambda>i. tolist s (row ?p xs i)) [0..<n]) =
      Inr (map (\<lambda>i. (inferred_shape s, row ?p xs i)) [0..<n])"
    by (rule np_asarrays_map [OF each])
  show ?case
  proof (cases "n = 0")
    case True
    with len show ?thesis by (simp add: np_stack_def)
  next
    case False
    then have "0 < n" by simp
    from np_stack_same_shape [OF this, of "inferred_shape s" "row ?p xs"] rows_concat [OF len] arrs False
    show ?thesis by (simp del: upt_Suc)
  qed
qed

lemma row_concat:
  "\<forall>a\<in>set xs. length (snd a) = p \<Longrightarrow> i < length xs \<Longrightarrow>
     row p (concat (map snd xs)) i = snd (xs ! i)"
proof (induction xs arbitrary: i)
  case Nil
  then show ?case by simp
next
  case (Cons a xs)
  show ?case
  proof (cases i)
    case 0
    with Cons.prems show ?thesis by (simp add: row_def)
  next
    case (Suc j)
    with Cons.prems have "row p (concat (map snd xs)) j = snd (xs ! j)"
      by (intro Cons.IH) auto
    with Suc Cons.prems show ?thesis by (simp add: row_Suc)
  qed
qed

lemma jsonable_roundtrip_shapes:
  assumes same: "\<forall>a\<in>set xs. fst a = s \<and> wf_array a"
  shows "\<exists>j. to_jsonable xs = Inr j \<and>
           from_jsonable j = Inr (map (\<lambda>a. (inferred_shape s, snd a)) xs)"
proof (cases "xs = []")
  case True
  then show ?thesis by (simp add: to_jsonable_def from_jsonable_def np_stack_def)
next
  case False
  let ?n = "length xs" and ?p = "prod_list s" and ?d = "concat (map snd xs)"
  from same have lens: "\<forall>a\<in>set xs. length (snd a) = ?p"
    by (auto simp: wf_array_def)
  from False same have st: "np_stack xs = Inr (?n # s, ?d)"
    by (cases xs) (auto simp: np_stack_def list_all_iff)
  then have tj: "to_jsonable xs = Inr (JList (map (\<lambda>i. tolist s (row ?p ?d i)) [0..<?n]))"
    by (simp add: to_jsonable_def del: upt_Suc)
  have each: "\<forall>i\<in>set [0..<?n]. np_asarray (tolist s (row ?p ?d i)) = Inr (inferred_shape s, snd (xs ! i))"
  proof
    fix i assume "i \<in> set [0..<?n]"
    then have i: "i < ?n" by simp
    from row_concat [OF lens i] have r: "row ?p ?d i = snd (xs ! i)" .
    from lens i have "length (snd (xs ! i)) = ?p" by simp
    from np_asarray_tolist [OF this] r
    show "np_asarray (tolist s (row ?p ?d i)) = Inr (inferred_shape s, snd (xs ! i))" by simp
  qed
  have "map (\<lambda>i. (inferred_shape s, snd (xs ! i))) [0..<?n] = map (\<lambda>a. (inferred_shape s, snd a)) xs"
    by (rule nth_equalityI) simp_all
  with np_asarrays_map [OF each]
  have "from_jsonable (JList (map (\<lambda>i. tolist s (row ?p ?d i)) [0..<?n])) =
      Inr (map (\<lambda>a. (inferred_shape s, snd a)) xs)"
    by (simp add: from_jsonable_def del: upt_Suc)
  with tj show ?thesis by blast
qed

text \<open>
  Claim C8. For arrays of one shape, each with one entry per index, \<open>to_jsonable\<close>
  returns nested lists from which \<open>from_jsonable\<close> returns arrays with exactly the
  same entries, in the same order; when no axis is empty the arrays themselves are
  the same. No arithmetic is done on the way: the conversions of a number (numpy
  scalar to Python float and back to a numpy scalar) keep its value, so the entries
  stay what they are.
\<close>

theorem jsonable_roundtrip:
  assumes same: "\<forall>a\<in>set xs. fst a = s \<and> wf_array a"
  shows "\<exists>j ys. to_jsonable xs = Inr j \<and> from_jsonable j = Inr ys \<and>
           map snd ys = map snd xs \<and> (0 \<notin> set s \<longrightarrow> ys = xs)"
proof -
  from jsonable_roundtrip_shapes [OF same] obtain j where
    j: "to_jsonable xs = Inr j" "from_jsonable j = Inr (map (\<lambda>a. (inferred_shape s, snd a)) xs)"
    by blast
  have "map (\<lambda>a. (inferred_shape s, snd a)) xs = xs" if "0 \<notin> set s"
    using same inferred_shape_id [OF that] by (intro map_idI) auto
  with j show ?thesis by (auto simp: comp_def)
qed

theorem jsonable_roundtrip_witness:
  "to_jsonable [([2], [3 / 4, 1 / 4 :: rat]), ([2], [1 / 2, 1 / 2])] =
     Inr (JList [JList [JNum (3 / 4), JNum (1 / 4)], JList [JNum (1 / 2), JNum (1 / 2)]]) \<and>
   from_jsonable (JList [JList [JNum (3 / 4), JNum (1 / 4)], JList [JNum (1 / 2), JNum (1 / 2 :: rat)]]) =
     Inr [([2], [3 / 4, 1 / 4]), ([2], [1 / 2, 1 / 2])]"
proof -
  let ?xs = "[([2], [3 / 4, 1 / 4 :: rat]), ([2], [1 / 2, 1 / 2])]"
  have tj: "to_jsonable ?xs =
      Inr (JList [JList [JNum (3 / 4), JNum (1 / 4)], JList [JNum (1 / 2), JNum (1 / 2)]])"
    by (simp add: to_jsonable_def np_stack_def row_def upt_conv_Cons numeral_2_eq_2)
  have "\<forall>a\<in>set ?xs. fst a = [2] \<and> wf_array a"
    by (simp add: wf_array_def)
  from jsonable_roundtrip [OF this] tj show ?thesis by auto
qed

end
